theory Spec2Isabelle
  imports Main
begin

section \<open>JavaScript values read by the middleware\<close>

text \<open>
  The middleware of \<^verbatim>\<open>index.js\<close> compares numbers with \<^verbatim>\<open><\<close>, tests values for
  truthiness and converts header values with \<^verbatim>\<open>Number\<close>. A number is \<open>NaN\<close> or an
  integer; byte counts and thresholds with a fraction, and the infinities, are outside
  this model.
\<close>

datatype jsnum = NaN | Num int

text \<open>The operator \<^verbatim>\<open><\<close> on two numbers: false as soon as one side is \<open>NaN\<close>.\<close>

fun js_lt :: "jsnum \<Rightarrow> jsnum \<Rightarrow> bool" where
  "js_lt (Num a) (Num b) = (a < b)"
| "js_lt _ _ = False"

text \<open>A header or option value that is present: a number or a string.\<close>

datatype jsval = JNum jsnum | JStr string

fun truthy :: "jsval \<Rightarrow> bool" where
  "truthy (JNum NaN) = False"
| "truthy (JNum (Num n)) = (n \<noteq> 0)"
| "truthy (JStr s) = (s \<noteq> [])"

text \<open>
  A negotiated encoding is a string, or \<open>None\<close> for the falsy answer of the
  negotiator (\<^verbatim>\<open>false\<close> or \<^verbatim>\<open>undefined\<close>).
\<close>

fun str_truthy :: "string option \<Rightarrow> bool" where
  "str_truthy None = False"
| "str_truthy (Some m) = (m \<noteq> [])"

datatype error = TypeError | Thrown string

section \<open>The exchange and its collaborators\<close>

text \<open>
  A chunk handed to \<^verbatim>\<open>write\<close> or \<^verbatim>\<open>end\<close>: absent, a string, or a Buffer of bytes.
  The encoding argument is optional.
\<close>

datatype chunk = Absent | Str string | Buf "char list"

type_synonym encoding = "string option"

fun chunk_truthy :: "chunk \<Rightarrow> bool" where
  "chunk_truthy Absent = False"
| "chunk_truthy (Str t) = (t \<noteq> [])"
| "chunk_truthy (Buf b) = True"

text \<open>
  Event listeners: callbacks of the application, told apart by a number, and the three
  closures the middleware itself creates on the compression path (the \<^verbatim>\<open>data\<close> and
  \<^verbatim>\<open>end\<close> listeners of the codec stream and the \<^verbatim>\<open>drain\<close> listener of the response).
\<close>

datatype handler = App nat | RelayData | RelayEnd | RelayResume

type_synonym subscription = "string \<times> handler"

datatype codec = Gzip | Deflate

text \<open>What the properties \<^verbatim>\<open>res.write\<close>, \<^verbatim>\<open>res.end\<close> and \<^verbatim>\<open>res.flush\<close> hold.\<close>

datatype slot = Proxy | Noop

datatype flush_slot = FlushNoop | FlushStream

text \<open>
  The calls that reach the collaborators: the original \<^verbatim>\<open>write\<close> and \<^verbatim>\<open>end\<close> of the
  response, and \<^verbatim>\<open>write\<close> and \<^verbatim>\<open>end\<close> of the codec stream (whose argument is
  \<^verbatim>\<open>new Buffer(chunk, encoding)\<close>, recorded by the chunk and encoding it is built from;
  \<^verbatim>\<open>stream.end()\<close> with no argument is \<open>StreamEnd None\<close>). The boolean results of
  these calls, which the proxies hand back unchanged, are not modelled.
\<close>

datatype call =
    TransportWrite chunk encoding
  | TransportEnd chunk encoding
  | StreamWrite chunk encoding
  | StreamEnd "(chunk \<times> encoding) option"

text \<open>
  The headers of the response, keyed by the spelling of the name that \<^verbatim>\<open>index.js\<close>
  uses (Node compares header names without regard to case).
\<close>

type_synonym header_map = "string \<rightharpoonup> jsval"

record request =
  req_method :: string
  accept_encoding :: "string list \<Rightarrow> string option"

text \<open>The options the middleware was built with, after \<^verbatim>\<open>compression(options)\<close>.\<close>

record config =
  filter_cfg :: "request \<Rightarrow> header_map \<Rightarrow> bool"
  threshold :: jsnum

text \<open>
  Everything the proxies of one exchange are closed over or call into: the configuration,
  the request, and the library functions \<^verbatim>\<open>vary\<close> (as the new value of the Vary header,
  computed from the old one and the field name), \<^verbatim>\<open>Buffer.byteLength\<close> and the
  conversion of a non-empty string to a number by \<^verbatim>\<open>Number\<close>.
\<close>

record env =
  cfg :: config
  req :: request
  vary :: "jsval option \<Rightarrow> string \<Rightarrow> jsval option"
  byteLength :: "string \<Rightarrow> encoding \<Rightarrow> nat"
  StringToNumber :: "string \<Rightarrow> jsnum"

text \<open>
  The state of one exchange: the response (\<^verbatim>\<open>_header\<close>, its headers, the listeners
  registered through the original \<^verbatim>\<open>on\<close>, what \<^verbatim>\<open>write\<close>, \<^verbatim>\<open>end\<close> and \<^verbatim>\<open>flush\<close>
  currently are), the one-shot flag of \<^verbatim>\<open>on-headers\<close>, the closure variables
  \<^verbatim>\<open>length\<close>, \<^verbatim>\<open>listeners\<close> (\<open>None\<close> is \<^verbatim>\<open>null\<close>) and \<^verbatim>\<open>stream\<close>, the listeners
  of the codec stream, and the calls made so far, oldest first.
\<close>

record exchange =
  header_sent :: bool
  fired :: bool
  headers :: header_map
  length_var :: "nat option"
  listeners :: "subscription list option"
  stream :: "codec option"
  write_slot :: slot
  end_slot :: slot
  flush_prop :: flush_slot
  transport_on :: "subscription list"
  stream_on :: "subscription list"
  calls :: "call list"

section \<open>Construction: \<^verbatim>\<open>compression(options)\<close>\<close>

record options =
  filter_opt :: "(request \<Rightarrow> header_map \<Rightarrow> bool) option"
  threshold_opt :: "jsval option"

text \<open>
  \<^verbatim>\<open>shouldCompress\<close>, the default filter. The classification \<^verbatim>\<open>compressible\<close> is a
  table of another package and is a parameter.
\<close>

definition shouldCompress :: "(jsval \<Rightarrow> bool) \<Rightarrow> request \<Rightarrow> header_map \<Rightarrow> bool" where
  "shouldCompress compressible rq hs =
     (case hs ''Content-Type'' of
        None \<Rightarrow> False
      | Some type \<Rightarrow> if \<not> compressible type then False else True)"

text \<open>
  The size parser \<^verbatim>\<open>bytes.parse\<close> belongs to another package: it is a parameter that
  either throws or returns, and what it returns is a number or \<^verbatim>\<open>null\<close> (\<open>None\<close>).
\<close>

type_synonym size_parser = "jsval option \<Rightarrow> error + jsnum option"

definition compression :: "size_parser \<Rightarrow> (jsval \<Rightarrow> bool) \<Rightarrow> options \<Rightarrow> error + config" where
  "compression parse compressible opts =
     (let filter_fn = (case filter_opt opts of None \<Rightarrow> shouldCompress compressible | Some f \<Rightarrow> f)
      in case parse (threshold_opt opts) of
           Inl e \<Rightarrow> Inl e
         | Inr None \<Rightarrow> Inr \<lparr>filter_cfg = filter_fn, threshold = Num 1024\<rparr>
         | Inr (Some t) \<Rightarrow> Inr \<lparr>filter_cfg = filter_fn, threshold = t\<rparr>)"

section \<open>The middleware on one exchange\<close>

text \<open>
  The state right after the middleware ran for an exchange, before \<^verbatim>\<open>next()\<close>: the
  proxies are installed, \<^verbatim>\<open>flush\<close> is a no-op, nothing is buffered. The response comes
  with its headers and the listeners it already has.
\<close>

definition middleware :: "header_map \<Rightarrow> subscription list \<Rightarrow> exchange" where
  "middleware hs regs =
     \<lparr>header_sent = False, fired = False, headers = hs, length_var = None,
      listeners = Some [], stream = None, write_slot = Proxy, end_slot = Proxy,
      flush_prop = FlushNoop, transport_on = regs, stream_on = [], calls = []\<rparr>"

definition getHeader :: "exchange \<Rightarrow> string \<Rightarrow> jsval option" where
  "getHeader s name = headers s name"

definition setHeader :: "exchange \<Rightarrow> string \<Rightarrow> jsval \<Rightarrow> exchange" where
  "setHeader s name v = s\<lparr>headers := (headers s)(name \<mapsto> v)\<rparr>"

text \<open>
  \<^verbatim>\<open>Number(v)\<close> for what \<^verbatim>\<open>getHeader\<close> returns: \<^verbatim>\<open>undefined\<close> is \<open>NaN\<close>, the empty
  string is 0.
\<close>

definition js_Number :: "env \<Rightarrow> jsval option \<Rightarrow> jsnum" where
  "js_Number e v =
     (case v of
        None \<Rightarrow> NaN
      | Some (JNum x) \<Rightarrow> x
      | Some (JStr t) \<Rightarrow> if t = [] then Num 0 else StringToNumber e t)"

fun chunkLength :: "env \<Rightarrow> chunk \<Rightarrow> encoding \<Rightarrow> nat option" where
  "chunkLength e Absent encoding = None"
| "chunkLength e (Str t) encoding = (if t = [] then None else Some (byteLength e t encoding))"
| "chunkLength e (Buf b) encoding = Some (length b)"

text \<open>
  \<^verbatim>\<open>addListeners(stream, on, listeners)\<close>: the loop calls \<^verbatim>\<open>on\<close> once for each buffered
  pair, from the first to the last; \<^verbatim>\<open>on\<close> appends to the listeners of its target.
\<close>

fun addListeners :: "subscription list \<Rightarrow> subscription list \<Rightarrow> subscription list" where
  "addListeners target [] = target"
| "addListeners target (l # ls) = addListeners (target @ [l]) ls"

text \<open>\<^verbatim>\<open>nocompress\<close>; reading \<^verbatim>\<open>listeners.length\<close> of \<^verbatim>\<open>null\<close> is a TypeError.\<close>

definition nocompress :: "exchange \<Rightarrow> error + exchange" where
  "nocompress s =
     (case listeners s of
        None \<Rightarrow> Inl TypeError
      | Some ls \<Rightarrow> Inr (s\<lparr>transport_on := addListeners (transport_on s) ls, listeners := None\<rparr>))"

text \<open>The test of line 131.\<close>

definition below_threshold :: "env \<Rightarrow> exchange \<Rightarrow> bool" where
  "below_threshold e s =
     (js_lt (js_Number e (getHeader s ''Content-Length'')) (threshold (cfg e))
      \<or> js_lt (case length_var s of None \<Rightarrow> NaN | Some n \<Rightarrow> Num (int n)) (threshold (cfg e)))"

text \<open>\<^verbatim>\<open>res.getHeader('Content-Encoding') || 'identity'\<close>.\<close>

definition content_encoding :: "exchange \<Rightarrow> jsval" where
  "content_encoding s =
     (case getHeader s ''Content-Encoding'' of
        None \<Rightarrow> JStr ''identity''
      | Some v \<Rightarrow> if truthy v then v else JStr ''identity'')"

text \<open>The choice of the method, lines 151 to 157, from the negotiator of the request.\<close>

definition negotiate :: "(string list \<Rightarrow> string option) \<Rightarrow> string option" where
  "negotiate encoding =
     (let method = encoding [''gzip'', ''deflate'', ''identity'']
      in if method = Some ''deflate'' \<and> str_truthy (encoding [''gzip''])
         then encoding [''gzip'', ''identity'']
         else method)"

text \<open>
  Lines 165 to 196: the codec stream is created, the buffered listeners are added to it,
  \<^verbatim>\<open>flush\<close> is overwritten, the headers are changed and the relay listeners are
  registered.
\<close>

definition start_compression :: "string \<Rightarrow> exchange \<Rightarrow> error + exchange" where
  "start_compression method s =
     (case listeners s of
        None \<Rightarrow> Inl TypeError
      | Some ls \<Rightarrow>
          Inr (s\<lparr>stream := Some (if method = ''gzip'' then Gzip else Deflate),
                 stream_on := addListeners [] ls @ [(''data'', RelayData), (''end'', RelayEnd)],
                 flush_prop := FlushStream,
                 headers := ((headers s)(''Content-Encoding'' \<mapsto> JStr method))(''Content-Length'' := None),
                 transport_on := transport_on s @ [(''drain'', RelayResume)]\<rparr>))"

text \<open>\<^verbatim>\<open>vary(res, 'Accept-Encoding')\<close>.\<close>

definition add_vary :: "env \<Rightarrow> exchange \<Rightarrow> exchange" where
  "add_vary e s = s\<lparr>headers := (headers s)(''Vary'' := vary e (headers s ''Vary'') ''Accept-Encoding'')\<rparr>"

text \<open>The listener given to \<^verbatim>\<open>onHeaders\<close>: the decision.\<close>

definition onHeaders_listener :: "env \<Rightarrow> exchange \<Rightarrow> error + exchange" where
  "onHeaders_listener e s =
     (if \<not> filter_cfg (cfg e) (req e) (headers s) then nocompress s
      else
        let s1 = add_vary e s
        in if below_threshold e s1 then nocompress s1
           else if content_encoding s1 \<noteq> JStr ''identity'' then nocompress s1
           else if req_method (req e) = ''HEAD'' then nocompress s1
           else (case negotiate (accept_encoding (req e)) of
                   None \<Rightarrow> nocompress s1
                 | Some method \<Rightarrow>
                     if method = [] \<or> method = ''identity'' then nocompress s1
                     else start_compression method s1))"

text \<open>
  Modelled from the spec: \<^verbatim>\<open>writeHead\<close> as the package \<^verbatim>\<open>on-headers\<close> patches it is not
  part of \<^verbatim>\<open>index.js\<close>; the specification describes it as a hook fired exactly once
  immediately before headers are transmitted. The listener runs on the first call only,
  then the headers are committed and \<^verbatim>\<open>_header\<close> is set. \<^verbatim>\<open>_implicitHeader\<close> of Node
  calls \<^verbatim>\<open>writeHead\<close>.
\<close>

definition writeHead :: "env \<Rightarrow> exchange \<Rightarrow> error + exchange" where
  "writeHead e s =
     (if fired s then Inr (s\<lparr>header_sent := True\<rparr>)
      else (case onHeaders_listener e (s\<lparr>fired := True\<rparr>) of
              Inl err \<Rightarrow> Inl err
            | Inr s' \<Rightarrow> Inr (s'\<lparr>header_sent := True\<rparr>)))"

definition implicitHeader :: "env \<Rightarrow> exchange \<Rightarrow> error + exchange" where
  "implicitHeader e s = writeHead e s"

text \<open>
  The proxy \<^verbatim>\<open>res.write\<close>. \<^verbatim>\<open>new Buffer(chunk, encoding)\<close> of an absent chunk is a
  TypeError.
\<close>

definition res_write :: "env \<Rightarrow> exchange \<Rightarrow> chunk \<Rightarrow> encoding \<Rightarrow> error + exchange" where
  "res_write e s chunk encoding =
     (case (if \<not> header_sent s then implicitHeader e s else Inr s) of
        Inl err \<Rightarrow> Inl err
      | Inr s1 \<Rightarrow>
          (case stream s1 of
             Some c \<Rightarrow>
               (if chunk = Absent then Inl TypeError
                else Inr (s1\<lparr>calls := calls s1 @ [StreamWrite chunk encoding]\<rparr>))
           | None \<Rightarrow> Inr (s1\<lparr>calls := calls s1 @ [TransportWrite chunk encoding]\<rparr>)))"

text \<open>Lines 81 to 84: the estimate of the length, made by \<^verbatim>\<open>res.end\<close> only.\<close>

definition estimate :: "env \<Rightarrow> exchange \<Rightarrow> chunk \<Rightarrow> encoding \<Rightarrow> exchange" where
  "estimate e s chunk encoding =
     (case getHeader s ''Content-Length'' of
        None \<Rightarrow> s\<lparr>length_var := chunkLength e chunk encoding\<rparr>
      | Some v \<Rightarrow> if \<not> truthy v then s\<lparr>length_var := chunkLength e chunk encoding\<rparr> else s)"

text \<open>The proxy \<^verbatim>\<open>res.end\<close>.\<close>

definition res_end :: "env \<Rightarrow> exchange \<Rightarrow> chunk \<Rightarrow> encoding \<Rightarrow> error + exchange" where
  "res_end e s chunk encoding =
     (case (if \<not> header_sent s then implicitHeader e (estimate e s chunk encoding) else Inr s) of
        Inl err \<Rightarrow> Inl err
      | Inr s1 \<Rightarrow>
          (case stream s1 of
             None \<Rightarrow> Inr (s1\<lparr>calls := calls s1 @ [TransportEnd chunk encoding]\<rparr>)
           | Some c \<Rightarrow>
               (if chunk_truthy chunk
                then Inr (s1\<lparr>calls := calls s1 @ [StreamEnd (Some (chunk, encoding))]\<rparr>)
                else Inr (s1\<lparr>calls := calls s1 @ [StreamEnd None]\<rparr>))))"

text \<open>The proxy \<^verbatim>\<open>res.on\<close>.\<close>

definition res_on :: "exchange \<Rightarrow> string \<Rightarrow> handler \<Rightarrow> exchange" where
  "res_on s type listener =
     (case listeners s of
        None \<Rightarrow> s\<lparr>transport_on := transport_on s @ [(type, listener)]\<rparr>
      | Some ls \<Rightarrow>
          if type \<noteq> ''drain'' then s\<lparr>transport_on := transport_on s @ [(type, listener)]\<rparr>
          else if stream s \<noteq> None then s\<lparr>stream_on := stream_on s @ [(type, listener)]\<rparr>
          else s\<lparr>listeners := Some (ls @ [(type, listener)])\<rparr>)"

text \<open>The listener of the \<^verbatim>\<open>close\<close> event of the request.\<close>

definition on_close :: "exchange \<Rightarrow> exchange" where
  "on_close s = s\<lparr>write_slot := Noop, end_slot := Noop\<rparr>"

text \<open>
  What the application does to the response: it calls whatever \<^verbatim>\<open>res.write\<close> and
  \<^verbatim>\<open>res.end\<close> hold at that moment.
\<close>

definition call_write :: "env \<Rightarrow> exchange \<Rightarrow> chunk \<Rightarrow> encoding \<Rightarrow> error + exchange" where
  "call_write e s chunk encoding =
     (case write_slot s of Noop \<Rightarrow> Inr s | Proxy \<Rightarrow> res_write e s chunk encoding)"

definition call_end :: "env \<Rightarrow> exchange \<Rightarrow> chunk \<Rightarrow> encoding \<Rightarrow> error + exchange" where
  "call_end e s chunk encoding =
     (case end_slot s of Noop \<Rightarrow> Inr s | Proxy \<Rightarrow> res_end e s chunk encoding)"

datatype action = Write chunk encoding | End chunk encoding

fun act :: "env \<Rightarrow> exchange \<Rightarrow> action \<Rightarrow> error + exchange" where
  "act e s (Write chunk encoding) = call_write e s chunk encoding"
| "act e s (End chunk encoding) = call_end e s chunk encoding"

text \<open>A sequence of calls; the first error ends it, as the exception would.\<close>

fun run :: "env \<Rightarrow> exchange \<Rightarrow> action list \<Rightarrow> error + exchange" where
  "run e s [] = Inr s"
| "run e s (a # as) = (case act e s a of Inl err \<Rightarrow> Inl err | Inr s' \<Rightarrow> run e s' as)"

text \<open>Registering a sequence of listeners through the proxy \<^verbatim>\<open>res.on\<close>, in order.\<close>

fun subscribe :: "exchange \<Rightarrow> subscription list \<Rightarrow> exchange" where
  "subscribe s [] = s"
| "subscribe s (r # rs) = subscribe (res_on s (fst r) (snd r)) rs"

section \<open>Predicates used to state the properties\<close>

text \<open>
  An exchange on which nothing has committed the headers yet: the decision has not run,
  no length was estimated, no codec stream exists and \<^verbatim>\<open>listeners\<close> is still an array.
\<close>

definition pending :: "exchange \<Rightarrow> bool" where
  "pending s =
     (\<not> header_sent s \<and> \<not> fired s \<and> length_var s = None \<and> stream s = None
      \<and> listeners s \<noteq> None)"

text \<open>
  An exchange that passes every rule of the decision other than the threshold rule: the
  filter accepts it, no encoding other than identity is declared, the request is not a
  HEAD request and a method other than identity is negotiated.
\<close>

definition eligible :: "env \<Rightarrow> exchange \<Rightarrow> bool" where
  "eligible e s =
     (filter_cfg (cfg e) (req e) (headers s)
      \<and> content_encoding s = JStr ''identity''
      \<and> req_method (req e) \<noteq> ''HEAD''
      \<and> (case negotiate (accept_encoding (req e)) of
            None \<Rightarrow> False
          | Some method \<Rightarrow> method \<noteq> [] \<and> method \<noteq> ''identity''))"

text \<open>
  What an exchange looks like after a call, compared with before it: not compressed (no
  codec stream, Content-Encoding and Content-Length as they were), or compressed with a
  method (the codec stream of that method, Content-Encoding set to it, Content-Length
  removed).
\<close>

definition uncompressed :: "exchange \<Rightarrow> exchange \<Rightarrow> bool" where
  "uncompressed s s' =
     (stream s' = None \<and> headers s' ''Content-Encoding'' = headers s ''Content-Encoding''
      \<and> headers s' ''Content-Length'' = headers s ''Content-Length'')"

definition compressing :: "string \<Rightarrow> exchange \<Rightarrow> bool" where
  "compressing method s' =
     (stream s' = Some (if method = ''gzip'' then Gzip else Deflate)
      \<and> headers s' ''Content-Encoding'' = Some (JStr method)
      \<and> headers s' ''Content-Length'' = None)"

section \<open>Concrete collaborators for the examples\<close>

text \<open>
  A negotiator that honours weights. The requester lists encodings with a weight each
  (a quality value in thousandths; 0 is a refusal). Among the candidates that are listed
  with a weight above 0 the answer is the one of the highest weight, and of several with
  that weight the one the requester listed first; with no such candidate there is no
  answer.
\<close>

fun pick :: "(string \<times> nat) list \<Rightarrow> (string \<times> nat) option" where
  "pick [] = None"
| "pick (p # ps) =
     (case pick ps of
        None \<Rightarrow> Some p
      | Some b \<Rightarrow> if snd p < snd b then Some b else Some p)"

definition weighted :: "(string \<times> nat) list \<Rightarrow> string list \<Rightarrow> string option" where
  "weighted listed candidates =
     map_option fst (pick [p \<leftarrow> listed. fst p \<in> set candidates \<and> 0 < snd p])"

text \<open>A classification that takes the text types to be compressible.\<close>

fun text_type :: "jsval \<Rightarrow> bool" where
  "text_type (JStr t) = (take 5 t = ''text/'')"
| "text_type (JNum x) = False"

text \<open>
  A Vary function that sets the field when there is no Vary header and keeps a header
  that is there.
\<close>

fun vary_field :: "jsval option \<Rightarrow> string \<Rightarrow> jsval option" where
  "vary_field None field = Some (JStr field)"
| "vary_field (Some v) field = Some v"

text \<open>Strings held as their bytes, whatever the encoding argument.\<close>

definition bytes_of :: "string \<Rightarrow> encoding \<Rightarrow> nat" where
  "bytes_of t encoding = length t"

text \<open>
  The examples convert no string to a number (their Content-Length headers are numbers);
  the conversion they carry answers \<open>NaN\<close>.
\<close>

definition not_numeric :: "string \<Rightarrow> jsnum" where
  "not_numeric t = NaN"

text \<open>A size parser that returns a number as it is and \<^verbatim>\<open>null\<close> for anything else.\<close>

fun parse_plain :: size_parser where
  "parse_plain (Some (JNum x)) = Inr (Some x)"
| "parse_plain v = Inr None"

text \<open>A GET request that accepts gzip, and the environment of the examples around it.\<close>

definition get_gzip :: request where
  "get_gzip = \<lparr>req_method = ''GET'', accept_encoding = weighted [(''gzip'', 1000), (''identity'', 1000)]\<rparr>"

definition example_env :: "jsnum \<Rightarrow> request \<Rightarrow> env" where
  "example_env t rq =
     \<lparr>cfg = \<lparr>filter_cfg = shouldCompress text_type, threshold = t\<rparr>, req = rq,
      vary = vary_field, byteLength = bytes_of, StringToNumber = not_numeric\<rparr>"

definition html :: header_map where
  "html = [''Content-Type'' \<mapsto> JStr ''text/html'']"

text \<open>
  The exchange \<open>middleware html []\<close> after a decision for gzip, with the length estimate
  and the calls it has then.
\<close>

definition compressed_html :: "nat option \<Rightarrow> call list \<Rightarrow> exchange" where
  "compressed_html len cs =
     \<lparr>header_sent = True, fired = True,
      headers = ((html(''Vary'' \<mapsto> JStr ''Accept-Encoding''))(''Content-Encoding'' \<mapsto> JStr ''gzip''))
                  (''Content-Length'' := None),
      length_var = len, listeners = Some [], stream = Some Gzip, write_slot = Proxy,
      end_slot = Proxy, flush_prop = FlushStream, transport_on = [(''drain'', RelayResume)],
      stream_on = [(''data'', RelayData), (''end'', RelayEnd)], calls = cs\<rparr>"

text \<open>
  A GET request that lists deflate, identity and gzip, in this order, all with the
  weight 1.
\<close>

definition deflate_first :: request where
  "deflate_first =
     \<lparr>req_method = ''GET'',
      accept_encoding = weighted [(''deflate'', 1000), (''identity'', 1000), (''gzip'', 1000)]\<rparr>"

section \<open>Facts about the decision\<close>

lemma addListeners_append: "addListeners target ls = target @ ls"
  by (induction ls arbitrary: target) auto

lemma nocompress_Some:
  "listeners s = Some ls \<Longrightarrow>
   nocompress s = Inr (s\<lparr>transport_on := transport_on s @ ls, listeners := None\<rparr>)"
  by (simp add: nocompress_def addListeners_append)

lemma start_compression_Some:
  "listeners s = Some ls \<Longrightarrow>
   start_compression m s =
     Inr (s\<lparr>stream := Some (if m = ''gzip'' then Gzip else Deflate),
            stream_on := ls @ [(''data'', RelayData), (''end'', RelayEnd)],
            flush_prop := FlushStream,
            headers := ((headers s)(''Content-Encoding'' \<mapsto> JStr m))(''Content-Length'' := None),
            transport_on := transport_on s @ [(''drain'', RelayResume)]\<rparr>)"
  by (simp add: start_compression_def addListeners_append)

lemma add_vary_fields:
  "listeners (add_vary e s) = listeners s"
  "transport_on (add_vary e s) = transport_on s"
  "stream_on (add_vary e s) = stream_on s"
  "stream (add_vary e s) = stream s"
  "length_var (add_vary e s) = length_var s"
  "calls (add_vary e s) = calls s"
  "header_sent (add_vary e s) = header_sent s"
  "fired (add_vary e s) = fired s"
  "write_slot (add_vary e s) = write_slot s"
  "end_slot (add_vary e s) = end_slot s"
  by (simp_all add: add_vary_def)

lemma add_vary_headers:
  "headers (add_vary e s) ''Vary'' = vary e (headers s ''Vary'') ''Accept-Encoding''"
  "headers (add_vary e s) ''Content-Length'' = headers s ''Content-Length''"
  "headers (add_vary e s) ''Content-Encoding'' = headers s ''Content-Encoding''"
  by (simp_all add: add_vary_def)

lemma below_threshold_add_vary: "below_threshold e (add_vary e s) = below_threshold e s"
  by (simp add: below_threshold_def getHeader_def add_vary_headers add_vary_fields)

lemma content_encoding_add_vary: "content_encoding (add_vary e s) = content_encoding s"
  by (simp add: content_encoding_def getHeader_def add_vary_headers)

lemma decision_filtered:
  "listeners s = Some ls \<Longrightarrow> \<not> filter_cfg (cfg e) (req e) (headers s) \<Longrightarrow>
   onHeaders_listener e s = Inr (s\<lparr>transport_on := transport_on s @ ls, listeners := None\<rparr>)"
  by (simp add: onHeaders_listener_def nocompress_Some)

lemma decision_compress:
  "listeners s = Some ls \<Longrightarrow> eligible e s \<Longrightarrow> \<not> below_threshold e s \<Longrightarrow>
   negotiate (accept_encoding (req e)) = Some m \<Longrightarrow>
   onHeaders_listener e s =
     Inr ((add_vary e s)\<lparr>stream := Some (if m = ''gzip'' then Gzip else Deflate),
            stream_on := ls @ [(''data'', RelayData), (''end'', RelayEnd)],
            flush_prop := FlushStream,
            headers := ((headers (add_vary e s))(''Content-Encoding'' \<mapsto> JStr m))(''Content-Length'' := None),
            transport_on := transport_on s @ [(''drain'', RelayResume)]\<rparr>)"
  by (simp add: onHeaders_listener_def Let_def below_threshold_add_vary content_encoding_add_vary
      eligible_def start_compression_Some add_vary_fields)

text \<open>Every outcome of the decision, by what became of the listeners.\<close>

lemma decision_outcome:
  assumes "listeners s = Some ls"
  shows "\<exists>s'. onHeaders_listener e s = Inr s'
     \<and> header_sent s' = header_sent s \<and> fired s' = fired s \<and> length_var s' = length_var s
     \<and> calls s' = calls s \<and> write_slot s' = write_slot s \<and> end_slot s' = end_slot s
     \<and> ((stream s' = stream s \<and> listeners s' = None \<and> transport_on s' = transport_on s @ ls
          \<and> stream_on s' = stream_on s)
        \<or> (stream s' \<noteq> None \<and> listeners s' = Some ls
            \<and> stream_on s' = ls @ [(''data'', RelayData), (''end'', RelayEnd)]
            \<and> transport_on s' = transport_on s @ [(''drain'', RelayResume)]))"
  using assms
  by (auto simp: onHeaders_listener_def Let_def nocompress_Some start_compression_Some add_vary_fields
      split: option.splits)

lemma fired_update:
  "below_threshold e (s\<lparr>fired := True\<rparr>) = below_threshold e s"
  "eligible e (s\<lparr>fired := True\<rparr>) = eligible e s"
  "content_encoding (s\<lparr>fired := True\<rparr>) = content_encoding s"
  by (simp_all add: below_threshold_def eligible_def getHeader_def content_encoding_def)

lemma estimate_fields:
  "headers (estimate e s chunk enc) = headers s"
  "listeners (estimate e s chunk enc) = listeners s"
  "stream (estimate e s chunk enc) = stream s"
  "fired (estimate e s chunk enc) = fired s"
  "header_sent (estimate e s chunk enc) = header_sent s"
  "calls (estimate e s chunk enc) = calls s"
  "transport_on (estimate e s chunk enc) = transport_on s"
  "stream_on (estimate e s chunk enc) = stream_on s"
  by (simp_all add: estimate_def split: option.splits)

lemma eligible_estimate: "eligible e (estimate e s chunk enc) = eligible e s"
  by (simp add: eligible_def content_encoding_def getHeader_def estimate_fields)

text \<open>The decision on an exchange that it does not compress, and on one that it does.\<close>

lemma writeHead_below:
  assumes "\<not> fired s" "listeners s = Some ls" "below_threshold e s \<or> \<not> eligible e s"
    and "stream s = None"
  shows "\<exists>s'. writeHead e s = Inr s' \<and> uncompressed s s' \<and> calls s' = calls s
     \<and> length_var s' = length_var s \<and> header_sent s'"
  using assms
  by (auto simp: writeHead_def onHeaders_listener_def Let_def nocompress_Some fired_update
      below_threshold_add_vary content_encoding_add_vary eligible_def
      add_vary_fields add_vary_headers uncompressed_def split: option.splits)

lemma writeHead_compress:
  assumes "\<not> fired s" "listeners s = Some ls" "\<not> below_threshold e s" "eligible e s"
    and "negotiate (accept_encoding (req e)) = Some m"
  shows "\<exists>s'. writeHead e s = Inr s' \<and> compressing m s' \<and> calls s' = calls s
     \<and> length_var s' = length_var s \<and> header_sent s'"
proof -
  let ?s = "s\<lparr>fired := True\<rparr>"
  have "listeners ?s = Some ls" "eligible e ?s" "\<not> below_threshold e ?s"
    using assms by (simp_all add: fired_update)
  from decision_compress [OF this assms(5)] show ?thesis
    using assms(1) by (simp add: writeHead_def compressing_def add_vary_fields)
qed

lemma eligible_negotiated:
  "eligible e s \<Longrightarrow> \<exists>m. negotiate (accept_encoding (req e)) = Some m"
  by (auto simp: eligible_def split: option.splits)

section \<open>Facts about the proxies\<close>

lemma pending_estimate:
  "pending s \<Longrightarrow> \<not> fired (estimate e s chunk enc) \<and> stream (estimate e s chunk enc) = None
     \<and> (\<exists>ls. listeners (estimate e s chunk enc) = Some ls)"
  by (auto simp: pending_def estimate_fields)

lemma res_end_uncompressed:
  assumes "pending s"
    and "below_threshold e (estimate e s chunk enc) \<or> \<not> eligible e s"
  shows "\<exists>s'. res_end e s chunk enc = Inr s' \<and> uncompressed s s'
     \<and> calls s' = calls s @ [TransportEnd chunk enc]
     \<and> length_var s' = length_var (estimate e s chunk enc)"
proof -
  let ?s = "estimate e s chunk enc"
  from pending_estimate [OF assms(1)] obtain ls where
    p: "\<not> fired ?s" "listeners ?s = Some ls" "stream ?s = None" by blast
  have "below_threshold e ?s \<or> \<not> eligible e ?s"
    using assms(2) by (simp add: eligible_estimate)
  from writeHead_below [OF p(1) p(2) this p(3)] obtain s' where
    w: "writeHead e ?s = Inr s'" "uncompressed ?s s'" "calls s' = calls ?s"
       "length_var s' = length_var ?s" by blast
  have "\<not> header_sent s" using assms(1) by (simp add: pending_def)
  then have "res_end e s chunk enc = Inr (s'\<lparr>calls := calls s' @ [TransportEnd chunk enc]\<rparr>)"
    using w(1) w(2) by (simp add: res_end_def implicitHeader_def uncompressed_def)
  then show ?thesis
    using w by (simp add: uncompressed_def estimate_fields)
qed

lemma res_end_compressing:
  assumes "pending s"
    and "\<not> below_threshold e (estimate e s chunk enc)" and "eligible e s"
    and "negotiate (accept_encoding (req e)) = Some m"
  shows "\<exists>s'. res_end e s chunk enc = Inr s' \<and> compressing m s'
     \<and> calls s' = calls s @ [StreamEnd (if chunk_truthy chunk then Some (chunk, enc) else None)]
     \<and> length_var s' = length_var (estimate e s chunk enc)"
proof -
  let ?s = "estimate e s chunk enc"
  from pending_estimate [OF assms(1)] obtain ls where
    p: "\<not> fired ?s" "listeners ?s = Some ls" by blast
  have "eligible e ?s"
    using assms(3) by (simp add: eligible_estimate)
  from writeHead_compress [OF p(1) p(2) assms(2) this assms(4)] obtain s' where
    w: "writeHead e ?s = Inr s'" "compressing m s'" "calls s' = calls ?s"
       "length_var s' = length_var ?s" by blast
  have "\<not> header_sent s" using assms(1) by (simp add: pending_def)
  then have "res_end e s chunk enc =
      Inr (s'\<lparr>calls := calls s' @ [StreamEnd (if chunk_truthy chunk then Some (chunk, enc) else None)]\<rparr>)"
    using w(1) w(2) by (simp add: res_end_def implicitHeader_def compressing_def)
  then show ?thesis
    using w by (simp add: compressing_def estimate_fields)
qed

lemma res_end_outcome:
  assumes "pending s"
  shows "\<exists>s'. res_end e s chunk enc = Inr s'
     \<and> length_var s' = length_var (estimate e s chunk enc)
     \<and> (stream s' \<noteq> None \<longleftrightarrow> eligible e s \<and> \<not> below_threshold e (estimate e s chunk enc))"
proof (cases "eligible e s \<and> \<not> below_threshold e (estimate e s chunk enc)")
  case True
  then obtain m where "negotiate (accept_encoding (req e)) = Some m"
    using eligible_negotiated by blast
  from res_end_compressing [OF assms _ _ this, of chunk enc] True show ?thesis
    by (auto simp: compressing_def)
next
  case False
  with res_end_uncompressed [OF assms, of e chunk enc] show ?thesis
    by (auto simp: uncompressed_def)
qed

lemma below_no_estimate:
  "length_var s = None \<Longrightarrow>
   below_threshold e s = js_lt (js_Number e (getHeader s ''Content-Length'')) (threshold (cfg e))"
  by (simp add: below_threshold_def)

lemma res_write_outcome:
  assumes "pending s" and "chunk \<noteq> Absent"
  shows "\<exists>s'. res_write e s chunk enc = Inr s' \<and> length_var s' = length_var s
     \<and> calls s' = calls s @ [if stream s' = None then TransportWrite chunk enc else StreamWrite chunk enc]
     \<and> (stream s' \<noteq> None \<longleftrightarrow> eligible e s \<and> \<not> below_threshold e s)"
proof -
  from assms(1) obtain ls where
    p: "\<not> fired s" "listeners s = Some ls" "stream s = None" "\<not> header_sent s"
    by (auto simp: pending_def)
  show ?thesis
  proof (cases "eligible e s \<and> \<not> below_threshold e s")
    case True
    then obtain m where m: "negotiate (accept_encoding (req e)) = Some m"
      using eligible_negotiated by blast
    from True writeHead_compress [OF p(1) p(2) _ _ m] obtain s' where
      w: "writeHead e s = Inr s'" "compressing m s'" "calls s' = calls s"
         "length_var s' = length_var s" by blast
    have "res_write e s chunk enc = Inr (s'\<lparr>calls := calls s' @ [StreamWrite chunk enc]\<rparr>)"
      using w(1) w(2) p(4) assms(2)
      by (simp add: res_write_def implicitHeader_def compressing_def)
    then show ?thesis using w True by (simp add: compressing_def)
  next
    case False
    then have "below_threshold e s \<or> \<not> eligible e s" by blast
    from writeHead_below [OF p(1) p(2) this p(3)] obtain s' where
      w: "writeHead e s = Inr s'" "uncompressed s s'" "calls s' = calls s"
         "length_var s' = length_var s" by blast
    have "res_write e s chunk enc = Inr (s'\<lparr>calls := calls s' @ [TransportWrite chunk enc]\<rparr>)"
      using w(1) w(2) p(4) by (simp add: res_write_def implicitHeader_def uncompressed_def)
    then show ?thesis using w False by (auto simp: uncompressed_def)
  qed
qed

text \<open>The threshold test after the estimate, by what the Content-Length header is.\<close>

lemma below_estimate_absent:
  "getHeader s ''Content-Length'' = None \<Longrightarrow>
   below_threshold e (estimate e s chunk enc) =
     js_lt (case chunkLength e chunk enc of None \<Rightarrow> NaN | Some n \<Rightarrow> Num (int n)) (threshold (cfg e))"
  by (simp add: below_threshold_def estimate_def getHeader_def js_Number_def)

lemma below_estimate_header:
  assumes "getHeader s ''Content-Length'' = Some v" and "length_var s = None" and "v \<noteq> JNum NaN"
  shows "below_threshold e (estimate e s chunk enc) =
     js_lt (js_Number e (Some v)) (threshold (cfg e))"
proof (cases "truthy v")
  case True
  then show ?thesis
    using assms by (simp add: below_threshold_def estimate_def getHeader_def)
next
  case False
  then have z: "js_Number e (Some v) = Num 0"
    using assms(3) by (cases v rule: truthy.cases) (simp_all add: js_Number_def)
  have h: "getHeader (estimate e s chunk enc) ''Content-Length'' = Some v"
    using assms(1) by (simp add: getHeader_def estimate_fields)
  have l: "length_var (estimate e s chunk enc) = chunkLength e chunk enc"
    using assms(1) False by (simp add: estimate_def)
  show ?thesis
  proof (cases "threshold (cfg e)")
    case NaN
    then show ?thesis by (simp add: below_threshold_def h z)
  next
    case (Num t)
    then show ?thesis
      by (cases "chunkLength e chunk enc") (auto simp: below_threshold_def h z l)
  qed
qed

lemma act_closed: "act e (on_close s) a = Inr (on_close s)"
  by (cases a) (simp_all add: call_write_def call_end_def on_close_def)

lemma subscribe_pending:
  "listeners s = Some ls \<Longrightarrow> stream s = None \<Longrightarrow>
   subscribe s regs =
     s\<lparr>transport_on := transport_on s @ [r \<leftarrow> regs. fst r \<noteq> ''drain''],
       listeners := Some (ls @ [r \<leftarrow> regs. fst r = ''drain''])\<rparr>"
proof (induction regs arbitrary: s ls)
  case Nil
  then show ?case by simp
next
  case (Cons r regs)
  obtain t l where r: "r = (t, l)" by (cases r)
  show ?case
  proof (cases "t = ''drain''")
    case True
    let ?next = "s\<lparr>listeners := Some (ls @ [r])\<rparr>"
    have step: "subscribe s (r # regs) = subscribe ?next regs"
      using Cons.prems True r by (simp add: res_on_def)
    have ih: "subscribe ?next regs =
        ?next\<lparr>transport_on := transport_on ?next @ [r \<leftarrow> regs. fst r \<noteq> ''drain''],
           listeners := Some ((ls @ [r]) @ [r \<leftarrow> regs. fst r = ''drain''])\<rparr>"
      by (rule Cons.IH) (simp_all add: Cons.prems)
    show ?thesis unfolding step ih using True r by simp
  next
    case False
    let ?next = "s\<lparr>transport_on := transport_on s @ [r]\<rparr>"
    have step: "subscribe s (r # regs) = subscribe ?next regs"
      using Cons.prems False r by (simp add: res_on_def)
    have ih: "subscribe ?next regs =
        ?next\<lparr>transport_on := transport_on ?next @ [r \<leftarrow> regs. fst r \<noteq> ''drain''],
           listeners := Some (ls @ [r \<leftarrow> regs. fst r = ''drain''])\<rparr>"
      by (rule Cons.IH) (simp_all add: Cons.prems)
    show ?thesis unfolding step ih using False r by simp
  qed
qed

section \<open>Facts about the examples\<close>

lemmas example_defs =
  writeHead_def implicitHeader_def onHeaders_listener_def Let_def middleware_def example_env_def
  get_gzip_def html_def shouldCompress_def add_vary_def below_threshold_def getHeader_def
  js_Number_def content_encoding_def negotiate_def weighted_def start_compression_def
  nocompress_def compressed_html_def bytes_of_def

lemma negotiate_get_gzip: "negotiate (accept_encoding get_gzip) = Some ''gzip''"
  by (simp add: get_gzip_def negotiate_def weighted_def)

lemma pending_middleware: "pending (middleware hs regs)"
  by (simp add: pending_def middleware_def)

lemma pending_setHeader: "pending (setHeader s name v) = pending s"
  by (simp add: pending_def setHeader_def)

lemma eligible_html: "eligible (example_env t get_gzip) (middleware html regs)"
  by (simp add: eligible_def example_env_def middleware_def html_def shouldCompress_def
      content_encoding_def getHeader_def negotiate_get_gzip)
    (simp add: get_gzip_def)

lemma eligible_html_length:
  "eligible (example_env t get_gzip) (setHeader (middleware html regs) ''Content-Length'' v)"
  by (simp add: eligible_def example_env_def middleware_def setHeader_def html_def
      shouldCompress_def content_encoding_def getHeader_def negotiate_get_gzip)
    (simp add: get_gzip_def)

lemma threshold_example: "threshold (cfg (example_env t rq)) = t"
  by (simp add: example_env_def)

lemma negotiate_example: "negotiate (accept_encoding (req (example_env t get_gzip))) = Some ''gzip''"
  by (simp add: example_env_def negotiate_get_gzip)

lemma html_no_length: "getHeader (middleware html regs) ''Content-Length'' = None"
  by (simp add: getHeader_def middleware_def html_def)

lemma pick_member: "pick ps = Some p \<Longrightarrow> p \<in> set ps"
  by (induction ps arbitrary: p) (auto split: option.splits if_splits)

lemma weighted_candidate: "weighted listed cs = Some m \<Longrightarrow> m \<in> set cs"
  by (auto simp: weighted_def dest!: pick_member)

section \<open>The threshold\<close>

text \<open>
  Claim C1. Take an exchange on which the headers are not committed yet and which passes
  every rule other than the threshold rule, a threshold \<open>t\<close>, and a call of \<^verbatim>\<open>res.end\<close>.
  If the Content-Length header has the numeric value \<open>t - 1\<close>, the exchange is not
  compressed: no codec stream, Content-Encoding untouched, and the chunk goes to the
  original \<^verbatim>\<open>end\<close>. If it has the numeric value \<open>t\<close>, the exchange is compressed with the
  negotiated method and the chunk goes to the codec stream. With no Content-Length header
  and a chunk whose length is estimated, the same holds for an estimate of \<open>t - 1\<close> and
  of \<open>t\<close> bytes.
\<close>

theorem threshold_boundary:
  assumes "pending s" and "eligible e s" and "threshold (cfg e) = Num t"
    and "negotiate (accept_encoding (req e)) = Some m"
  shows "(js_Number e (getHeader s ''Content-Length'') = Num (t - 1) \<longrightarrow>
            (\<exists>s'. res_end e s chunk enc = Inr s' \<and> uncompressed s s'
                 \<and> calls s' = calls s @ [TransportEnd chunk enc]))
       \<and> (js_Number e (getHeader s ''Content-Length'') = Num t \<longrightarrow>
            (\<exists>s'. res_end e s chunk enc = Inr s' \<and> compressing m s'
                 \<and> calls s' = calls s @ [StreamEnd (if chunk_truthy chunk then Some (chunk, enc) else None)]))
       \<and> (getHeader s ''Content-Length'' = None \<and> chunkLength e chunk enc = Some n \<and> int n = t - 1 \<longrightarrow>
            (\<exists>s'. res_end e s chunk enc = Inr s' \<and> uncompressed s s'
                 \<and> calls s' = calls s @ [TransportEnd chunk enc]))
       \<and> (getHeader s ''Content-Length'' = None \<and> chunkLength e chunk enc = Some n \<and> int n = t \<longrightarrow>
            (\<exists>s'. res_end e s chunk enc = Inr s' \<and> compressing m s'
                 \<and> calls s' = calls s @ [StreamEnd (Some (chunk, enc))]))
       \<and> (js_Number e (getHeader s ''Content-Length'') = Num (t - 1) \<longrightarrow>
            (\<exists>s'. writeHead e s = Inr s' \<and> uncompressed s s'))
       \<and> (js_Number e (getHeader s ''Content-Length'') = Num t \<longrightarrow>
            (\<exists>s'. writeHead e s = Inr s' \<and> compressing m s'))"
proof -
  have len: "length_var s = None" using assms(1) by (simp add: pending_def)
  from assms(1) obtain ls where
    p: "\<not> fired s" "listeners s = Some ls" "stream s = None"
    by (auto simp: pending_def)
  have now: "below_threshold e s = js_lt (js_Number e (getHeader s ''Content-Length'')) (Num t)"
    using len assms(3) by (simp add: below_no_estimate)
  have hdr: "below_threshold e (estimate e s chunk enc) = js_lt (Num k) (Num t)"
    if "js_Number e (getHeader s ''Content-Length'') = Num k" for k
  proof -
    from that obtain v where v: "getHeader s ''Content-Length'' = Some v"
      by (cases "getHeader s ''Content-Length''") (simp_all add: js_Number_def)
    have "v \<noteq> JNum NaN" using that v by (auto simp: js_Number_def)
    from below_estimate_header [OF v len this] show ?thesis
      using that v assms(3) by simp
  qed
  have est: "below_threshold e (estimate e s chunk enc) = js_lt (Num (int n)) (Num t)"
    if "getHeader s ''Content-Length'' = None" "chunkLength e chunk enc = Some n"
    using that assms(3) by (simp add: below_estimate_absent)
  have truthy: "chunk_truthy chunk" if "chunkLength e chunk enc = Some n"
    using that by (cases chunk) (simp_all split: if_splits)
  have c1: "js_Number e (getHeader s ''Content-Length'') = Num (t - 1) \<longrightarrow>
            (\<exists>s'. res_end e s chunk enc = Inr s' \<and> uncompressed s s'
                 \<and> calls s' = calls s @ [TransportEnd chunk enc])"
    using res_end_uncompressed [OF assms(1), of e chunk enc] hdr [of "t - 1"] by auto
  have c2: "js_Number e (getHeader s ''Content-Length'') = Num t \<longrightarrow>
            (\<exists>s'. res_end e s chunk enc = Inr s' \<and> compressing m s'
                 \<and> calls s' = calls s @ [StreamEnd (if chunk_truthy chunk then Some (chunk, enc) else None)])"
    using res_end_compressing [OF assms(1) _ assms(2) assms(4), of chunk enc] hdr [of t] by auto
  have c3: "getHeader s ''Content-Length'' = None \<and> chunkLength e chunk enc = Some n \<and> int n = t - 1 \<longrightarrow>
            (\<exists>s'. res_end e s chunk enc = Inr s' \<and> uncompressed s s'
                 \<and> calls s' = calls s @ [TransportEnd chunk enc])"
    using res_end_uncompressed [OF assms(1), of e chunk enc] est by auto
  have c4: "getHeader s ''Content-Length'' = None \<and> chunkLength e chunk enc = Some n \<and> int n = t \<longrightarrow>
            (\<exists>s'. res_end e s chunk enc = Inr s' \<and> compressing m s'
                 \<and> calls s' = calls s @ [StreamEnd (Some (chunk, enc))])"
    using res_end_compressing [OF assms(1) _ assms(2) assms(4), of chunk enc] est truthy by auto
  have c5: "js_Number e (getHeader s ''Content-Length'') = Num (t - 1) \<longrightarrow>
            (\<exists>s'. writeHead e s = Inr s' \<and> uncompressed s s')"
    using writeHead_below [OF p(1) p(2) _ p(3), of e] now by auto
  have c6: "js_Number e (getHeader s ''Content-Length'') = Num t \<longrightarrow>
            (\<exists>s'. writeHead e s = Inr s' \<and> compressing m s')"
    using writeHead_compress [OF p(1) p(2) _ assms(2) assms(4)] now by auto
  from c1 c2 c3 c4 c5 c6 show ?thesis by blast
qed

text \<open>
  The theorem of C1 at the threshold 4: headers announcing 3 and 4 bytes, and chunks of 3
  and 4 bytes without a header.
\<close>

theorem threshold_boundary_witness:
  "(\<exists>s'. res_end (example_env (Num 4) get_gzip)
            (setHeader (middleware html []) ''Content-Length'' (JNum (Num 3))) (Str ''abcd'') None = Inr s'
        \<and> uncompressed (setHeader (middleware html []) ''Content-Length'' (JNum (Num 3))) s'
        \<and> calls s' = [TransportEnd (Str ''abcd'') None])
   \<and> (\<exists>s'. res_end (example_env (Num 4) get_gzip)
            (setHeader (middleware html []) ''Content-Length'' (JNum (Num 4))) (Str ''abcd'') None = Inr s'
        \<and> compressing ''gzip'' s'
        \<and> calls s' = [StreamEnd (Some (Str ''abcd'', None))])
   \<and> (\<exists>s'. res_end (example_env (Num 4) get_gzip) (middleware html []) (Str ''abc'') None = Inr s'
        \<and> uncompressed (middleware html []) s'
        \<and> calls s' = [TransportEnd (Str ''abc'') None])
   \<and> (\<exists>s'. res_end (example_env (Num 4) get_gzip) (middleware html []) (Str ''abcd'') None = Inr s'
        \<and> compressing ''gzip'' s'
        \<and> calls s' = [StreamEnd (Some (Str ''abcd'', None))])
   \<and> (\<exists>s'. writeHead (example_env (Num 4) get_gzip)
            (setHeader (middleware html []) ''Content-Length'' (JNum (Num 3))) = Inr s'
        \<and> uncompressed (setHeader (middleware html []) ''Content-Length'' (JNum (Num 3))) s')
   \<and> (\<exists>s'. writeHead (example_env (Num 4) get_gzip)
            (setHeader (middleware html []) ''Content-Length'' (JNum (Num 4))) = Inr s'
        \<and> compressing ''gzip'' s')"
proof -
  let ?e = "example_env (Num 4) get_gzip"
  let ?plain = "middleware html []"
  have p: "pending (setHeader ?plain ''Content-Length'' v)" for v
    by (simp add: pending_setHeader pending_middleware)
  have t: "threshold (cfg ?e) = Num 4" by (rule threshold_example)
  have a: "\<exists>s'. res_end ?e (setHeader ?plain ''Content-Length'' (JNum (Num 3))) (Str ''abcd'') None = Inr s'
        \<and> uncompressed (setHeader ?plain ''Content-Length'' (JNum (Num 3))) s'
        \<and> calls s' = [TransportEnd (Str ''abcd'') None]"
    using threshold_boundary [OF p [of "JNum (Num 3)"] eligible_html_length t negotiate_example,
        where chunk = "Str ''abcd''" and enc = None]
    by (simp add: js_Number_def getHeader_def setHeader_def middleware_def)
  have b: "\<exists>s'. res_end ?e (setHeader ?plain ''Content-Length'' (JNum (Num 4))) (Str ''abcd'') None = Inr s'
        \<and> compressing ''gzip'' s'
        \<and> calls s' = [StreamEnd (Some (Str ''abcd'', None))]"
    using threshold_boundary [OF p [of "JNum (Num 4)"] eligible_html_length t negotiate_example,
        where chunk = "Str ''abcd''" and enc = None]
    by (simp add: js_Number_def getHeader_def setHeader_def middleware_def)
  have c: "\<exists>s'. res_end ?e ?plain (Str ''abc'') None = Inr s'
        \<and> uncompressed ?plain s' \<and> calls s' = [TransportEnd (Str ''abc'') None]"
    using threshold_boundary [OF pending_middleware eligible_html t negotiate_example,
        where chunk = "Str ''abc''" and enc = None and n = 3]
    by (simp add: getHeader_def middleware_def html_def example_env_def bytes_of_def)
  have d: "\<exists>s'. res_end ?e ?plain (Str ''abcd'') None = Inr s'
        \<and> compressing ''gzip'' s' \<and> calls s' = [StreamEnd (Some (Str ''abcd'', None))]"
    using threshold_boundary [OF pending_middleware eligible_html t negotiate_example,
        where chunk = "Str ''abcd''" and enc = None and n = 4]
    by (simp add: getHeader_def middleware_def html_def example_env_def bytes_of_def)
  have f: "\<exists>s'. writeHead ?e (setHeader ?plain ''Content-Length'' (JNum (Num 3))) = Inr s'
        \<and> uncompressed (setHeader ?plain ''Content-Length'' (JNum (Num 3))) s'"
    using threshold_boundary [OF p [of "JNum (Num 3)"] eligible_html_length t negotiate_example,
        where chunk = "Str ''abcd''" and enc = None]
    by (simp add: js_Number_def getHeader_def setHeader_def middleware_def)
  have g: "\<exists>s'. writeHead ?e (setHeader ?plain ''Content-Length'' (JNum (Num 4))) = Inr s'
        \<and> compressing ''gzip'' s'"
    using threshold_boundary [OF p [of "JNum (Num 4)"] eligible_html_length t negotiate_example,
        where chunk = "Str ''abcd''" and enc = None]
    by (simp add: js_Number_def getHeader_def setHeader_def middleware_def)
  from a b c d f g show ?thesis by blast
qed

section \<open>Bytes written before the decision\<close>

text \<open>
  Claim C2, amended. A call of \<^verbatim>\<open>res.write\<close> with a chunk, on an exchange whose headers
  are not committed yet, returns without an error and makes no length estimate: the
  decision it triggers runs with the length undefined, so that the threshold rule compares
  the numeric value of the Content-Length header only (and rejects nothing when there is
  no such header). The chunk is not lost: it is the one call added, to the codec stream
  when the exchange is compressed and to the original \<^verbatim>\<open>write\<close> otherwise. An
  estimate is made by \<^verbatim>\<open>res.end\<close> only: called on such an exchange, it leaves what
  \<^verbatim>\<open>chunkLength\<close> returns for its chunk as the estimate when the Content-Length header
  is absent or falsy (0, the empty string), and leaves the length undefined when that
  header is truthy.
\<close>

theorem write_makes_no_estimate:
  assumes "pending s" and "chunk \<noteq> Absent"
  shows "(\<exists>s'. res_write e s chunk enc = Inr s' \<and> length_var s' = None
     \<and> calls s' = calls s @ [if stream s' = None then TransportWrite chunk enc else StreamWrite chunk enc]
     \<and> (stream s' \<noteq> None \<longleftrightarrow>
          eligible e s \<and> \<not> js_lt (js_Number e (getHeader s ''Content-Length'')) (threshold (cfg e))))
   \<and> (\<exists>s'. res_end e s chunk enc = Inr s'
        \<and> length_var s' =
             (case getHeader s ''Content-Length'' of
                None \<Rightarrow> chunkLength e chunk enc
              | Some v \<Rightarrow> if truthy v then None else chunkLength e chunk enc))"
proof -
  have l: "length_var s = None" using assms(1) by (simp add: pending_def)
  have w: "\<exists>s'. res_write e s chunk enc = Inr s' \<and> length_var s' = None
     \<and> calls s' = calls s @ [if stream s' = None then TransportWrite chunk enc else StreamWrite chunk enc]
     \<and> (stream s' \<noteq> None \<longleftrightarrow>
          eligible e s \<and> \<not> js_lt (js_Number e (getHeader s ''Content-Length'')) (threshold (cfg e)))"
    using res_write_outcome [OF assms, of e enc] by (simp add: l below_no_estimate)
  have est: "length_var (estimate e s chunk enc) =
      (case getHeader s ''Content-Length'' of
         None \<Rightarrow> chunkLength e chunk enc
       | Some v \<Rightarrow> if truthy v then None else chunkLength e chunk enc)"
    by (simp add: estimate_def l split: option.splits)
  from res_end_outcome [OF assms(1), of e chunk enc] obtain s' where
    r: "res_end e s chunk enc = Inr s'" "length_var s' = length_var (estimate e s chunk enc)"
    by blast
  from r(2) have "length_var s' =
      (case getHeader s ''Content-Length'' of
         None \<Rightarrow> chunkLength e chunk enc
       | Some v \<Rightarrow> if truthy v then None else chunkLength e chunk enc)"
    unfolding est .
  with r(1) w show ?thesis by blast
qed

text \<open>
  The theorem of C2 at a one-byte chunk and the threshold 1024, with no Content-Length
  header, with the header 0 and with the header 2000.
\<close>

theorem write_makes_no_estimate_witness:
  "(\<exists>s'. res_write (example_env (Num 1024) get_gzip) (middleware html []) (Str ''a'') None = Inr s'
     \<and> length_var s' = None \<and> calls s' = [StreamWrite (Str ''a'') None] \<and> stream s' \<noteq> None)
   \<and> (\<exists>s'. res_end (example_env (Num 1024) get_gzip) (middleware html []) (Str ''a'') None = Inr s'
     \<and> length_var s' = Some 1)
   \<and> (\<exists>s'. res_end (example_env (Num 1024) get_gzip)
            (setHeader (middleware html []) ''Content-Length'' (JNum (Num 0))) (Str ''a'') None = Inr s'
     \<and> length_var s' = Some 1)
   \<and> (\<exists>s'. res_end (example_env (Num 1024) get_gzip)
            (setHeader (middleware html []) ''Content-Length'' (JNum (Num 2000))) (Str ''a'') None = Inr s'
     \<and> length_var s' = None)"
proof -
  let ?e = "example_env (Num 1024) get_gzip"
  have n: "\<not> js_lt (js_Number ?e (getHeader (middleware html []) ''Content-Length'')) (threshold (cfg ?e))"
    by (simp add: html_no_length js_Number_def)
  have c: "calls (middleware html []) = []" by (simp add: middleware_def)
  have a: "Str ''a'' \<noteq> Absent" by simp
  note inst = write_makes_no_estimate [OF pending_middleware a, of ?e html "[]" None]
  from inst have e: "\<exists>s'. res_end ?e (middleware html []) (Str ''a'') None = Inr s'
     \<and> length_var s' = Some 1"
    by (simp add: html_no_length example_env_def bytes_of_def)
  from inst
  obtain s' where r: "res_write ?e (middleware html []) (Str ''a'') None = Inr s'"
      "length_var s' = None"
      "calls s' = calls (middleware html []) @
         [if stream s' = None then TransportWrite (Str ''a'') None else StreamWrite (Str ''a'') None]"
      "stream s' \<noteq> None \<longleftrightarrow> eligible ?e (middleware html []) \<and>
         \<not> js_lt (js_Number ?e (getHeader (middleware html []) ''Content-Length'')) (threshold (cfg ?e))"
    by blast
  from r(4) n have s: "stream s' \<noteq> None" by (simp add: eligible_html)
  have p: "pending (setHeader (middleware html []) ''Content-Length'' v)" for v
    by (simp add: pending_setHeader pending_middleware)
  have z: "\<exists>s'. res_end ?e (setHeader (middleware html []) ''Content-Length'' (JNum (Num 0)))
        (Str ''a'') None = Inr s' \<and> length_var s' = Some 1"
    using write_makes_no_estimate [OF p [of "JNum (Num 0)"] a, of ?e None]
    by (simp add: getHeader_def setHeader_def example_env_def bytes_of_def)
  have t: "\<exists>s'. res_end ?e (setHeader (middleware html []) ''Content-Length'' (JNum (Num 2000)))
        (Str ''a'') None = Inr s' \<and> length_var s' = None"
    using write_makes_no_estimate [OF p [of "JNum (Num 2000)"] a, of ?e None]
    by (simp add: getHeader_def setHeader_def)
  from r c e s z t show ?thesis by auto
qed

text \<open>
  The claim C2 as it was stated fails: a chunk of one byte is written with no
  Content-Length header under the threshold 1024; the length stays undefined and the
  exchange is compressed, although one byte is below the threshold.
\<close>

theorem write_estimate_counterexample:
  "res_write (example_env (Num 1024) get_gzip) (middleware html []) (Str ''a'') None
     = Inr (compressed_html None [StreamWrite (Str ''a'') None])
   \<and> byteLength (example_env (Num 1024) get_gzip) ''a'' None = 1
   \<and> js_lt (Num 1) (threshold (cfg (example_env (Num 1024) get_gzip)))"
  by (simp add: res_write_def example_defs)

section \<open>Ending without a chunk\<close>

text \<open>
  Claim C4, amended. When \<^verbatim>\<open>res.end\<close> is called before the headers are committed with a
  chunk that is absent (or the empty string) and no Content-Length header is set, the
  estimate is undefined, not 0: the threshold rule does not reject the exchange, whatever
  the threshold, and the exchange is compressed exactly when it passes the other rules.
\<close>

theorem end_without_chunk_no_estimate:
  assumes "pending s" and "\<not> chunk_truthy chunk" and "getHeader s ''Content-Length'' = None"
  shows "length_var (estimate e s chunk enc) = None
     \<and> \<not> below_threshold e (estimate e s chunk enc)
     \<and> (\<exists>s'. res_end e s chunk enc = Inr s' \<and> length_var s' = None
           \<and> (stream s' \<noteq> None \<longleftrightarrow> eligible e s))"
proof -
  have c: "chunkLength e chunk enc = None"
    using assms(2) by (cases chunk) simp_all
  have l: "length_var (estimate e s chunk enc) = None"
    using assms(3) c by (simp add: estimate_def)
  have b: "\<not> below_threshold e (estimate e s chunk enc)"
    using assms(3) c by (simp add: below_estimate_absent)
  from res_end_outcome [OF assms(1), of e chunk enc] l b show ?thesis by simp
qed

text \<open>The theorem of C4 at \<^verbatim>\<open>res.end()\<close> under the threshold 1024.\<close>

theorem end_without_chunk_witness:
  "length_var (estimate (example_env (Num 1024) get_gzip) (middleware html []) Absent None) = None
   \<and> (\<exists>s'. res_end (example_env (Num 1024) get_gzip) (middleware html []) Absent None = Inr s'
         \<and> length_var s' = None \<and> stream s' \<noteq> None)"
proof -
  have t: "\<not> chunk_truthy Absent" by simp
  from end_without_chunk_no_estimate [OF pending_middleware t html_no_length,
      of "example_env (Num 1024) get_gzip" "[]" None]
  show ?thesis
    by (auto simp: eligible_html)
qed

text \<open>
  The claim C4 as it was stated fails: \<^verbatim>\<open>res.end()\<close> on an eligible exchange under the
  default threshold 1024 leaves the length undefined and starts the gzip stream.
\<close>

theorem end_without_chunk_counterexample:
  "res_end (example_env (Num 1024) get_gzip) (middleware html []) Absent None
     = Inr (compressed_html None [StreamEnd None])"
  by (simp add: res_end_def estimate_def example_defs)

section \<open>A Content-Length header set by the application\<close>

text \<open>
  Claim C9, amended. Let the Content-Length header be set (to a value other than \<open>NaN\<close>)
  when \<^verbatim>\<open>res.end\<close> is called before the headers are committed. If the value is truthy (a
  number other than 0, a string other than the empty one), no estimate is made from the
  chunk; if it is 0 or the empty string, the estimate is made from the chunk. In both cases
  the threshold test equals the comparison of the numeric value of the header with the
  threshold, and the exchange is compressed exactly when it passes the other rules and
  that value is not below the threshold.
\<close>

theorem content_length_header_decides:
  assumes "pending s" and "getHeader s ''Content-Length'' = Some v" and "v \<noteq> JNum NaN"
  shows "(if truthy v then estimate e s chunk enc = s
          else length_var (estimate e s chunk enc) = chunkLength e chunk enc)
     \<and> below_threshold e (estimate e s chunk enc) = js_lt (js_Number e (Some v)) (threshold (cfg e))
     \<and> (\<exists>s'. res_end e s chunk enc = Inr s'
           \<and> (stream s' \<noteq> None \<longleftrightarrow>
                eligible e s \<and> \<not> js_lt (js_Number e (Some v)) (threshold (cfg e))))"
proof -
  have l: "length_var s = None" using assms(1) by (simp add: pending_def)
  have a: "if truthy v then estimate e s chunk enc = s
          else length_var (estimate e s chunk enc) = chunkLength e chunk enc"
    using assms(2) by (simp add: estimate_def)
  note b = below_estimate_header [OF assms(2) l assms(3), of e chunk enc]
  from res_end_outcome [OF assms(1), of e chunk enc] obtain s' where
    r: "res_end e s chunk enc = Inr s'"
       "stream s' \<noteq> None \<longleftrightarrow> eligible e s \<and> \<not> below_threshold e (estimate e s chunk enc)"
    by blast
  from r(2) have "stream s' \<noteq> None \<longleftrightarrow>
      eligible e s \<and> \<not> js_lt (js_Number e (Some v)) (threshold (cfg e))"
    unfolding b .
  with r(1) a b show ?thesis by blast
qed

text \<open>The theorem of C9 at a header of 2000 and a chunk of 5 bytes.\<close>

theorem content_length_header_witness:
  "estimate (example_env (Num 1024) get_gzip)
       (setHeader (middleware html []) ''Content-Length'' (JNum (Num 2000))) (Str ''hello'') None
     = setHeader (middleware html []) ''Content-Length'' (JNum (Num 2000))
   \<and> (\<exists>s'. res_end (example_env (Num 1024) get_gzip)
              (setHeader (middleware html []) ''Content-Length'' (JNum (Num 2000))) (Str ''hello'') None = Inr s'
         \<and> stream s' \<noteq> None)"
proof -
  let ?s = "setHeader (middleware html []) ''Content-Length'' (JNum (Num 2000))"
  let ?e = "example_env (Num 1024) get_gzip"
  have p: "pending ?s" by (simp add: pending_setHeader pending_middleware)
  have h: "getHeader ?s ''Content-Length'' = Some (JNum (Num 2000))"
    by (simp add: getHeader_def setHeader_def)
  have n: "JNum (Num 2000) \<noteq> JNum NaN" by simp
  have j: "\<not> js_lt (js_Number ?e (Some (JNum (Num 2000)))) (threshold (cfg ?e))"
    by (simp add: js_Number_def threshold_example)
  from content_length_header_decides [OF p h n, of ?e "Str ''hello''" None]
  show ?thesis
    using j by (auto simp: eligible_html_length)
qed

text \<open>
  The claim C9 as it was stated fails: with the Content-Length header set to the number 0,
  the estimate is computed from the chunk of \<^verbatim>\<open>res.end\<close>, here 5 bytes.
\<close>

theorem content_length_zero_counterexample:
  "getHeader (setHeader (middleware html []) ''Content-Length'' (JNum (Num 0))) ''Content-Length''
     = Some (JNum (Num 0))
   \<and> estimate (example_env (Num 1024) get_gzip)
       (setHeader (middleware html []) ''Content-Length'' (JNum (Num 0))) (Str ''hello'') None
     = (setHeader (middleware html []) ''Content-Length'' (JNum (Num 0)))\<lparr>length_var := Some 5\<rparr>"
  by (simp add: estimate_def getHeader_def setHeader_def example_env_def bytes_of_def)

section \<open>The negotiated method\<close>

text \<open>
  Claim C5, amended. For a negotiator that answers with one of its candidates, and a
  request for which gzip on its own is acceptable, the negotiated method is never deflate:
  when the negotiation over gzip, deflate and identity selects deflate, the method is the
  answer of a second negotiation over gzip and identity (gzip, unless the negotiator puts
  identity first); otherwise it is the answer of the first negotiation.
\<close>

theorem gzip_taken_over_deflate:
  assumes "\<forall>cs m. encoding cs = Some m \<longrightarrow> m \<in> set cs"
    and "str_truthy (encoding [''gzip''])"
  shows "negotiate encoding \<noteq> Some ''deflate''
     \<and> negotiate encoding =
         (if encoding [''gzip'', ''deflate'', ''identity''] = Some ''deflate''
          then encoding [''gzip'', ''identity'']
          else encoding [''gzip'', ''deflate'', ''identity''])"
proof -
  have "encoding [''gzip'', ''identity''] \<noteq> Some ''deflate''"
    using assms(1) by fastforce
  then show ?thesis
    using assms(2) by (simp add: negotiate_def Let_def)
qed

text \<open>
  The theorem of C5 at a requester that lists deflate and gzip with the same weight,
  deflate first: the method is gzip.
\<close>

theorem gzip_taken_over_deflate_witness:
  "str_truthy (weighted [(''deflate'', 1000), (''gzip'', 1000)] [''gzip''])
   \<and> weighted [(''deflate'', 1000), (''gzip'', 1000)] [''gzip'', ''deflate'', ''identity''] = Some ''deflate''
   \<and> negotiate (weighted [(''deflate'', 1000), (''gzip'', 1000)]) = Some ''gzip''"
proof -
  let ?enc = "weighted [(''deflate'', 1000), (''gzip'', 1000)]"
  have c: "\<forall>cs m. ?enc cs = Some m \<longrightarrow> m \<in> set cs"
    using weighted_candidate by blast
  have g: "str_truthy (?enc [''gzip''])"
    by (simp add: weighted_def)
  have d: "?enc [''gzip'', ''deflate'', ''identity''] = Some ''deflate''"
    by (simp add: weighted_def)
  have i: "?enc [''gzip'', ''identity''] = Some ''gzip''"
    by (simp add: weighted_def)
  from gzip_taken_over_deflate [OF c g] g d i show ?thesis
    by simp
qed

text \<open>
  The claim C5 as it was stated fails: the requester lists deflate, identity and gzip with
  the same weight. Gzip and deflate are both acceptable, the plain negotiation selects
  deflate, and the method is identity, not gzip.
\<close>

theorem gzip_preference_counterexample:
  "accept_encoding deflate_first [''gzip''] = Some ''gzip''
   \<and> accept_encoding deflate_first [''deflate''] = Some ''deflate''
   \<and> accept_encoding deflate_first [''gzip'', ''deflate'', ''identity''] = Some ''deflate''
   \<and> negotiate (accept_encoding deflate_first) = Some ''identity''"
  by (simp add: deflate_first_def negotiate_def weighted_def)

section \<open>Construction\<close>

text \<open>
  Claim C3, amended. \<^verbatim>\<open>compression(options)\<close> checks nothing itself: it fails exactly
  when the size parser throws. When the parser returns \<^verbatim>\<open>null\<close> the threshold is 1024,
  and when it returns a number, that number is the threshold, below zero or not.
\<close>

theorem construction_takes_parser_result:
  "(compression parse compressible opts = Inl err \<longleftrightarrow> parse (threshold_opt opts) = Inl err)
   \<and> (parse (threshold_opt opts) = Inr None \<longrightarrow>
        (\<exists>c. compression parse compressible opts = Inr c \<and> threshold c = Num 1024))
   \<and> (parse (threshold_opt opts) = Inr (Some t) \<longrightarrow>
        (\<exists>c. compression parse compressible opts = Inr c \<and> threshold c = t))"
  by (auto simp: compression_def Let_def split: sum.splits option.splits)

text \<open>The theorem of C3 at no threshold option and at the option 2048.\<close>

theorem construction_takes_parser_result_witness:
  "parse_plain (threshold_opt \<lparr>filter_opt = None, threshold_opt = None\<rparr>) = Inr None
   \<and> (\<exists>c. compression parse_plain text_type \<lparr>filter_opt = None, threshold_opt = None\<rparr> = Inr c
         \<and> threshold c = Num 1024)
   \<and> parse_plain (threshold_opt \<lparr>filter_opt = None, threshold_opt = Some (JNum (Num 2048))\<rparr>)
       = Inr (Some (Num 2048))
   \<and> (\<exists>c. compression parse_plain text_type
              \<lparr>filter_opt = None, threshold_opt = Some (JNum (Num 2048))\<rparr> = Inr c
         \<and> threshold c = Num 2048)"
  using construction_takes_parser_result [of parse_plain text_type
      "\<lparr>filter_opt = None, threshold_opt = None\<rparr>" "Thrown []" "Num 0"]
    construction_takes_parser_result [of parse_plain text_type
      "\<lparr>filter_opt = None, threshold_opt = Some (JNum (Num 2048))\<rparr>" "Thrown []" "Num 2048"]
  by simp

text \<open>
  The claim C3 as it was stated fails with a parser that returns numbers as they are and
  \<^verbatim>\<open>null\<close> for what it cannot read: the option -1 gives a middleware with the
  threshold -1, and the option \<^verbatim>\<open>'abc'\<close> gives one with the threshold 1024.
\<close>

theorem construction_counterexample:
  "compression parse_plain text_type \<lparr>filter_opt = None, threshold_opt = Some (JNum (Num (- 1)))\<rparr>
     = Inr \<lparr>filter_cfg = shouldCompress text_type, threshold = Num (- 1)\<rparr>
   \<and> compression parse_plain text_type \<lparr>filter_opt = None, threshold_opt = Some (JStr ''abc'')\<rparr>
     = Inr \<lparr>filter_cfg = shouldCompress text_type, threshold = Num 1024\<rparr>"
  by (simp add: compression_def)

section \<open>Calls after the connection closed\<close>

text \<open>
  Claim C6. Once the \<^verbatim>\<open>close\<close> listener has run, whatever the state of the exchange
  was (decided or not, compressing or not), any sequence of calls of \<^verbatim>\<open>res.write\<close> and
  \<^verbatim>\<open>res.end\<close> returns without an error and leaves the whole exchange as it was: no call
  reaches the transport or the codec stream, and the decision is not triggered.
\<close>

theorem post_close_discard: "run e (on_close s) as = Inr (on_close s)"
  by (induction as) (simp_all add: act_closed)

section \<open>The default filter\<close>

text \<open>
  Claim C10. On a response with no Content-Type header the default filter answers false
  for every request, and a decision taken with the default filter then goes the
  no-compression way: the buffered listeners go to the transport, \<^verbatim>\<open>listeners\<close>
  becomes \<^verbatim>\<open>null\<close>, and nothing else changes (no stream, no header touched).
\<close>

theorem no_content_type_not_compressed:
  assumes "headers s ''Content-Type'' = None"
    and "listeners s = Some ls"
    and "filter_cfg (cfg e) = shouldCompress compressible"
  shows "shouldCompress compressible rq (headers s) = False
     \<and> onHeaders_listener e s = Inr (s\<lparr>transport_on := transport_on s @ ls, listeners := None\<rparr>)"
proof -
  have f: "shouldCompress compressible rq' (headers s) = False" for rq'
    using assms(1) by (simp add: shouldCompress_def)
  then have "\<not> filter_cfg (cfg e) (req e) (headers s)"
    using assms(3) by simp
  then show ?thesis
    using f assms(2) by (simp add: decision_filtered)
qed

text \<open>The theorem of C10 at a response with no header at all.\<close>

theorem no_content_type_not_compressed_witness:
  "headers (middleware Map.empty []) ''Content-Type'' = None
   \<and> listeners (middleware Map.empty []) = Some []
   \<and> onHeaders_listener (example_env (Num 1024) get_gzip) (middleware Map.empty [])
       = Inr ((middleware Map.empty [])\<lparr>transport_on := [], listeners := None\<rparr>)"
  using no_content_type_not_compressed [of "middleware Map.empty []" "[]"
      "example_env (Num 1024) get_gzip" text_type get_gzip]
  by (simp add: middleware_def example_env_def)

section \<open>The Vary header\<close>

text \<open>
  Claim C7, amended. The decision never fails on an exchange whose listeners are still
  buffered. When the filter accepts the exchange, the Vary header afterwards is the one the
  \<^verbatim>\<open>vary\<close> function computes for Accept-Encoding, whatever the outcome of the later
  rules; when the filter rejects it, the headers are left exactly as they were.
\<close>

theorem vary_only_after_filter:
  assumes "listeners s = Some ls"
  shows "\<exists>s'. onHeaders_listener e s = Inr s'
     \<and> (if filter_cfg (cfg e) (req e) (headers s)
        then headers s' ''Vary'' = vary e (headers s ''Vary'') ''Accept-Encoding''
        else headers s' = headers s)"
  using assms
  by (auto simp: onHeaders_listener_def Let_def nocompress_Some start_compression_Some
      add_vary_fields add_vary_headers split: option.splits)

text \<open>The theorem of C7 at an exchange the default filter accepts.\<close>

theorem vary_only_after_filter_witness:
  "listeners (middleware html []) = Some []
   \<and> (\<exists>s'. onHeaders_listener (example_env (Num 1024) get_gzip) (middleware html []) = Inr s'
         \<and> headers s' ''Vary'' = Some (JStr ''Accept-Encoding''))"
proof -
  have l: "listeners (middleware html []) = Some []"
    by (simp add: middleware_def)
  have f: "filter_cfg (cfg (example_env (Num 1024) get_gzip)) (req (example_env (Num 1024) get_gzip))
      (headers (middleware html []))"
    using eligible_html [of "Num 1024" "[]"] by (simp add: eligible_def)
  have v: "vary (example_env (Num 1024) get_gzip) (headers (middleware html []) ''Vary'') ''Accept-Encoding''
      = Some (JStr ''Accept-Encoding'')"
    by (simp add: example_env_def middleware_def html_def)
  from vary_only_after_filter [OF l, of "example_env (Num 1024) get_gzip"] l show ?thesis
    unfolding v using f by auto
qed

text \<open>
  The claim C7 as it was stated fails: a response without Content-Type is rejected by the
  default filter, and after the decision it still has no Vary header, although the
  \<^verbatim>\<open>vary\<close> function would have set one.
\<close>

theorem vary_filtered_counterexample:
  "onHeaders_listener (example_env (Num 1024) get_gzip) (middleware Map.empty [])
     = Inr ((middleware Map.empty [])\<lparr>transport_on := [], listeners := None\<rparr>)
   \<and> headers ((middleware Map.empty [])\<lparr>transport_on := [], listeners := None\<rparr>) ''Vary'' = None
   \<and> vary (example_env (Num 1024) get_gzip) None ''Accept-Encoding'' = Some (JStr ''Accept-Encoding'')"
  by (simp add: onHeaders_listener_def nocompress_def middleware_def example_env_def
      shouldCompress_def)

section \<open>Buffered listeners\<close>

text \<open>
  Claim C8. Let any sequence of listeners be registered through the proxy \<^verbatim>\<open>res.on\<close>
  before the headers are committed, and let the decision then run. It never fails. On the
  no-compression path the transport holds the listeners it had, then the registrations of
  other events in their order (they were passed on at once), then the \<^verbatim>\<open>drain\<close>
  registrations in their order, each once, and the codec side holds nothing. On the
  compression path the codec stream holds the \<^verbatim>\<open>drain\<close> registrations in their order,
  each once, followed by the two relay listeners, and the transport holds its own
  listeners, the registrations of other events and the relay \<^verbatim>\<open>drain\<close> listener.
  In every state of the exchange, a registration for an event other than \<^verbatim>\<open>drain\<close> is
  handed to the original \<^verbatim>\<open>on\<close> with its type and listener as they are.
\<close>

theorem drain_replay:
  "(\<exists>s'. writeHead e (subscribe (middleware hs regs0) regs) = Inr s'
     \<and> (case stream s' of
          None \<Rightarrow>
            transport_on s' = regs0 @ [r \<leftarrow> regs. fst r \<noteq> ''drain''] @ [r \<leftarrow> regs. fst r = ''drain'']
            \<and> stream_on s' = []
        | Some c \<Rightarrow>
            stream_on s' = [r \<leftarrow> regs. fst r = ''drain''] @ [(''data'', RelayData), (''end'', RelayEnd)]
            \<and> transport_on s' = regs0 @ [r \<leftarrow> regs. fst r \<noteq> ''drain''] @ [(''drain'', RelayResume)]))
   \<and> (type \<noteq> ''drain'' \<longrightarrow>
           res_on x type listener = x\<lparr>transport_on := transport_on x @ [(type, listener)]\<rparr>)"
proof -
  have other: "type \<noteq> ''drain'' \<longrightarrow>
           res_on x type listener = x\<lparr>transport_on := transport_on x @ [(type, listener)]\<rparr>"
    by (simp add: res_on_def split: option.splits)
  let ?init = "middleware hs regs0"
  let ?s = "subscribe ?init regs"
  have sub: "?s = ?init\<lparr>transport_on := regs0 @ [r \<leftarrow> regs. fst r \<noteq> ''drain''],
       listeners := Some ([r \<leftarrow> regs. fst r = ''drain''])\<rparr>"
    using subscribe_pending [where s = ?init and ls = "[]" and regs = regs] by (simp add: middleware_def)
  let ?dec = "?s\<lparr>fired := True\<rparr>"
  have l: "listeners ?dec = Some [r \<leftarrow> regs. fst r = ''drain'']"
    unfolding sub by simp
  from decision_outcome [OF l, of e] obtain s' where
    d: "onHeaders_listener e ?dec = Inr s'"
    and o: "(stream s' = stream ?dec \<and> listeners s' = None
          \<and> transport_on s' = transport_on ?dec @ [r \<leftarrow> regs. fst r = ''drain'']
          \<and> stream_on s' = stream_on ?dec)
        \<or> (stream s' \<noteq> None \<and> listeners s' = Some [r \<leftarrow> regs. fst r = ''drain'']
            \<and> stream_on s' = [r \<leftarrow> regs. fst r = ''drain''] @ [(''data'', RelayData), (''end'', RelayEnd)]
            \<and> transport_on s' = transport_on ?dec @ [(''drain'', RelayResume)])"
    by blast
  have nf: "\<not> fired ?s" unfolding sub by (simp add: middleware_def)
  have w: "writeHead e ?s = Inr (s'\<lparr>header_sent := True\<rparr>)"
    using d nf by (simp add: writeHead_def)
  have st: "stream ?dec = None" "stream_on ?dec = []"
    "transport_on ?dec = regs0 @ [r \<leftarrow> regs. fst r \<noteq> ''drain'']"
    unfolding sub by (simp_all add: middleware_def)
  from o show ?thesis
  proof
    assume a: "stream s' = stream ?dec \<and> listeners s' = None
          \<and> transport_on s' = transport_on ?dec @ [r \<leftarrow> regs. fst r = ''drain'']
          \<and> stream_on s' = stream_on ?dec"
    then show ?thesis using w st other by simp
  next
    assume a: "stream s' \<noteq> None \<and> listeners s' = Some [r \<leftarrow> regs. fst r = ''drain'']
            \<and> stream_on s' = [r \<leftarrow> regs. fst r = ''drain''] @ [(''data'', RelayData), (''end'', RelayEnd)]
            \<and> transport_on s' = transport_on ?dec @ [(''drain'', RelayResume)]"
    then show ?thesis using w st other by auto
  qed
qed

text \<open>The theorem of C8 at three registrations on an exchange that is compressed.\<close>

theorem drain_replay_witness:
  "(\<exists>s'. writeHead (example_env (Num 1024) get_gzip)
          (subscribe (middleware html [(''close'', App 0)])
             [(''drain'', App 1), (''error'', App 2), (''drain'', App 3)]) = Inr s'
     \<and> stream s' = Some Gzip
     \<and> stream_on s' = [(''drain'', App 1), (''drain'', App 3), (''data'', RelayData), (''end'', RelayEnd)]
     \<and> transport_on s' = [(''close'', App 0), (''error'', App 2), (''drain'', RelayResume)])
   \<and> res_on (middleware html []) ''error'' (App 2)
       = (middleware html [])\<lparr>transport_on := [(''error'', App 2)]\<rparr>"
proof -
  let ?e = "example_env (Num 1024) get_gzip"
  let ?regs = "[(''drain'', App 1), (''error'', App 2), (''drain'', App 3)]"
  note inst = drain_replay [where e = ?e and hs = html and ?regs0.0 = "[(''close'', App 0)]"
      and regs = ?regs and type = "''error''" and x = "middleware html []" and listener = "App 2"]
  from inst obtain s' where
    w: "writeHead ?e (subscribe (middleware html [(''close'', App 0)]) ?regs) = Inr s'"
    and c: "(case stream s' of
          None \<Rightarrow>
            transport_on s' = [(''close'', App 0)] @ [r \<leftarrow> ?regs. fst r \<noteq> ''drain''] @ [r \<leftarrow> ?regs. fst r = ''drain'']
            \<and> stream_on s' = []
        | Some c \<Rightarrow>
            stream_on s' = [r \<leftarrow> ?regs. fst r = ''drain''] @ [(''data'', RelayData), (''end'', RelayEnd)]
            \<and> transport_on s' = [(''close'', App 0)] @ [r \<leftarrow> ?regs. fst r \<noteq> ''drain''] @ [(''drain'', RelayResume)])"
    by blast
  from inst have o: "res_on (middleware html []) ''error'' (App 2)
       = (middleware html [])\<lparr>transport_on := [(''error'', App 2)]\<rparr>"
    by (simp add: middleware_def)
  have "stream s' = Some Gzip"
    using w
    by (auto simp: res_on_def example_defs split: if_splits sum.splits)
  with w c o show ?thesis by simp
qed

end
